theory Spec2Isabelle
  imports Complex_Main
begin

section \<open>Decoded JSON values\<close>

text \<open>
  The stream events and the blocking response reach the provider as decoded JSON. The
  source probes them at run time (\<^verbatim>\<open>"data" in data\<close>, \<^verbatim>\<open>typeof x === "number"\<close>, truthiness),
  so the values are modelled as they are at run time. An object is an association list:
  \<^verbatim>\<open>obj.k\<close> is \<open>map_of obj k\<close>, and \<open>None\<close> stands for \<^verbatim>\<open>undefined\<close>. Numbers are only
  copied by the code, never computed with.
\<close>

datatype json =
    JNull
  | JBool bool
  | JNum real
  | JStr string
  | JArr "json list"
  | JObj "(string \<times> json) list"

type_synonym jobject = "(string \<times> json) list"

text \<open>JavaScript truthiness of a decoded value, as used by \<^verbatim>\<open>if (data.task_id)\<close> and \<^verbatim>\<open>x || ""\<close>.\<close>

fun truthy :: "json \<Rightarrow> bool" where
  "truthy JNull = False"
| "truthy (JBool b) = b"
| "truthy (JNum n) = (n \<noteq> 0)"
| "truthy (JStr s) = (s \<noteq> [])"
| "truthy (JArr xs) = True"
| "truthy (JObj kvs) = True"

section \<open>The stream transform of the completion model\<close>

text \<open>
  \<^verbatim>\<open>ParseResult<DifyStreamEvent>\<close>: a chunk is either a validated event (\<^verbatim>\<open>success: true\<close>, with
  its \<^verbatim>\<open>value\<close>) or a failure carrying the parser's \<^verbatim>\<open>error\<close>.
\<close>

datatype chunk = ParseSuccess jobject | ParseFailure string

text \<open>The closure variables \<^verbatim>\<open>workflowRunId\<close> and \<^verbatim>\<open>taskId\<close> of \<^verbatim>\<open>doStream\<close>, both \<^verbatim>\<open>undefined\<close> at first.\<close>

record stream_state =
  workflowRunId :: "json option"
  taskId :: "json option"

definition initialState :: stream_state where
  "initialState = \<lparr>workflowRunId = None, taskId = None\<rparr>"

datatype finish_reason =
  FinishStop | FinishLength | FinishContentFilter | FinishToolCalls | FinishError | FinishOther | FinishUnknown

text \<open>\<^verbatim>\<open>providerMetadata.difyWorkflowData\<close> of a finish part or of a blocking result.\<close>

record dify_workflow_data =
  md_workflowRunId :: "json option"
  md_taskId :: "json option"

text \<open>The usage object of the LanguageModelV2 contract (unnamed/part_000).\<close>

record usage_v2 =
  inputTokens :: real
  outputTokens :: real
  totalTokens :: real

text \<open>The usage object of the LanguageModelV1 contract (src/completion/model.ts).\<close>

record usage_v1 =
  promptTokens :: real
  completionTokens :: real

text \<open>The stream parts the LanguageModelV2 transform enqueues.\<close>

datatype stream_part_v2 =
    ErrorPart string
  | Finish finish_reason dify_workflow_data usage_v2
  | TextEnd string
  | TextDelta string string
  | ResponseMetadata string
  | TextStart string

text \<open>The stream parts the LanguageModelV1 transform enqueues.\<close>

datatype stream_part_v1 =
    ErrorPartV1 string
  | FinishV1 finish_reason dify_workflow_data usage_v1
  | TextDeltaV1 string
  | ResponseMetadataV1 string

text \<open>
  \<^verbatim>\<open>if (data.workflow_run_id) workflowRunId = data.workflow_run_id as any;\<close>
  \<^verbatim>\<open>if (data.task_id) taskId = data.task_id;\<close>
\<close>

definition storeIds :: "stream_state \<Rightarrow> jobject \<Rightarrow> stream_state" where
  "storeIds st data =
     (let st1 = (case map_of data ''workflow_run_id'' of
                   Some v \<Rightarrow> if truthy v then st\<lparr>workflowRunId := Some v\<rparr> else st
                 | None \<Rightarrow> st)
      in (case map_of data ''task_id'' of
            Some v \<Rightarrow> if truthy v then st1\<lparr>taskId := Some v\<rparr> else st1
          | None \<Rightarrow> st1))"

text \<open>
  The type guard of the \<^verbatim>\<open>workflow_finished\<close> branch: \<^verbatim>\<open>totalTokens\<close> starts at 0 and becomes
  \<^verbatim>\<open>data.data.total_tokens\<close> when \<^verbatim>\<open>data.data\<close> is a (truthy) object that has the key with a
  number under it. An array is an object without that key, \<^verbatim>\<open>null\<close> is falsy.
\<close>

definition workflowTotalTokens :: "jobject \<Rightarrow> real" where
  "workflowTotalTokens data =
     (case map_of data ''data'' of
        Some (JObj d) \<Rightarrow> (case map_of d ''total_tokens'' of Some (JNum n) \<Rightarrow> n | _ \<Rightarrow> 0)
      | _ \<Rightarrow> 0)"

text \<open>The type guard of the \<^verbatim>\<open>text_chunk\<close> branch: \<^verbatim>\<open>data.data.text\<close> when it is a string.\<close>

definition chunkText :: "jobject \<Rightarrow> string option" where
  "chunkText data =
     (case map_of data ''data'' of
        Some (JObj d) \<Rightarrow> (case map_of d ''text'' of Some (JStr t) \<Rightarrow> Some t | _ \<Rightarrow> None)
      | _ \<Rightarrow> None)"

text \<open>
  \<^verbatim>\<open>transform(chunk, controller)\<close> of unnamed/part_000 (LanguageModelV2). The parts enqueued
  on the controller are returned in order, with the closure variables after the call.
  \<open>msgId\<close> is the \<^verbatim>\<open>generateId()\<close> drawn once per stream.
\<close>

fun transform_v2 :: "string \<Rightarrow> stream_state \<Rightarrow> chunk \<Rightarrow> stream_part_v2 list \<times> stream_state" where
  "transform_v2 msgId st (ParseFailure err) = ([ErrorPart err], st)"
| "transform_v2 msgId st (ParseSuccess data) =
     (let st' = storeIds st data; ev = map_of data ''event'' in
      if ev = Some (JStr ''workflow_finished'') then
        ([TextEnd msgId,
          Finish FinishStop
            \<lparr>md_workflowRunId = workflowRunId st', md_taskId = taskId st'\<rparr>
            \<lparr>inputTokens = 0, outputTokens = workflowTotalTokens data,
             totalTokens = workflowTotalTokens data\<rparr>], st')
      else if ev = Some (JStr ''text_chunk'') then
        ((case chunkText data of Some t \<Rightarrow> [TextDelta msgId t] | None \<Rightarrow> []), st')
      else if ev = Some (JStr ''workflow_started'') then
        ((case map_of data ''workflow_run_id'' of
            Some (JStr s) \<Rightarrow> [ResponseMetadata s, TextStart msgId]
          | _ \<Rightarrow> []), st')
      else ([], st'))"

text \<open>\<^verbatim>\<open>transform(chunk, controller)\<close> of src/completion/model.ts (LanguageModelV1).\<close>

fun transform_v1 :: "stream_state \<Rightarrow> chunk \<Rightarrow> stream_part_v1 list \<times> stream_state" where
  "transform_v1 st (ParseFailure err) = ([ErrorPartV1 err], st)"
| "transform_v1 st (ParseSuccess data) =
     (let st' = storeIds st data; ev = map_of data ''event'' in
      if ev = Some (JStr ''workflow_finished'') then
        ([FinishV1 FinishStop
            \<lparr>md_workflowRunId = workflowRunId st', md_taskId = taskId st'\<rparr>
            \<lparr>promptTokens = 0, completionTokens = workflowTotalTokens data\<rparr>], st')
      else if ev = Some (JStr ''text_chunk'') then
        ((case chunkText data of Some t \<Rightarrow> [TextDeltaV1 t] | None \<Rightarrow> []), st')
      else if ev = Some (JStr ''workflow_started'') then
        ((case map_of data ''workflow_run_id'' of
            Some (JStr s) \<Rightarrow> [ResponseMetadataV1 s]
          | _ \<Rightarrow> []), st')
      else ([], st'))"

text \<open>
  \<^verbatim>\<open>responseStream.pipeThrough(new TransformStream({transform}))\<close>: the transform is called
  once per chunk, in arrival order, and what it enqueues is the output, in that order.
\<close>

fun pipeThrough_v2 :: "string \<Rightarrow> stream_state \<Rightarrow> chunk list \<Rightarrow> stream_part_v2 list" where
  "pipeThrough_v2 msgId st [] = []"
| "pipeThrough_v2 msgId st (c # cs) =
     (case transform_v2 msgId st c of (parts, st') \<Rightarrow> parts @ pipeThrough_v2 msgId st' cs)"

fun pipeThrough_v1 :: "stream_state \<Rightarrow> chunk list \<Rightarrow> stream_part_v1 list" where
  "pipeThrough_v1 st [] = []"
| "pipeThrough_v1 st (c # cs) =
     (case transform_v1 st c of (parts, st') \<Rightarrow> parts @ pipeThrough_v1 st' cs)"



fun isTextStart :: "stream_part_v2 \<Rightarrow> bool" where
  "isTextStart (TextStart i) = True"
| "isTextStart p = False"

fun isTextEnd :: "stream_part_v2 \<Rightarrow> bool" where
  "isTextEnd (TextEnd i) = True"
| "isTextEnd p = False"

text \<open>\<^verbatim>\<open>data.event === name\<close> on a validated chunk; a failed chunk has no event.\<close>

fun eventIs :: "string \<Rightarrow> chunk \<Rightarrow> bool" where
  "eventIs name (ParseSuccess data) = (map_of data ''event'' = Some (JStr name))"
| "eventIs name (ParseFailure err) = False"

text \<open>A \<^verbatim>\<open>workflow_started\<close> chunk that passes the branch's guard \<^verbatim>\<open>typeof data.workflow_run_id === "string"\<close>.\<close>

fun startsWithRunId :: "chunk \<Rightarrow> bool" where
  "startsWithRunId (ParseSuccess data) =
     (map_of data ''event'' = Some (JStr ''workflow_started'') \<and>
      (case map_of data ''workflow_run_id'' of Some (JStr s) \<Rightarrow> True | _ \<Rightarrow> False))"
| "startsWithRunId (ParseFailure err) = False"

section \<open>Building the request\<close>

text \<open>
  A message of the prompt: its \<^verbatim>\<open>role\<close>, and a \<^verbatim>\<open>content\<close> that is a string or an array whose
  entries are strings or objects with a \<^verbatim>\<open>type\<close> and, for text, a \<^verbatim>\<open>text\<close>.
\<close>

datatype part = StringPart string | ObjectPart string "string option"

datatype message_content = StringContent string | ArrayContent "part list"

record message =
  role :: string
  content :: message_content

text \<open>
  The call options the provider reads: \<^verbatim>\<open>prompt\<close>, the older \<^verbatim>\<open>messages\<close>, and \<^verbatim>\<open>headers\<close>.
  \<open>None\<close> is an absent field.
\<close>

record call_options =
  prompt :: "message list option"
  messages :: "message list option"
  headers :: "(string \<rightharpoonup> string) option"

text \<open>
  \<^verbatim>\<open>DifyCompletionSettings\<close> is declared in ./settings, which is not among the sources; the
  model reads two of its fields, \<^verbatim>\<open>inputs\<close> and \<^verbatim>\<open>responseMode\<close>.
\<close>

record completion_settings =
  inputs :: "(string \<rightharpoonup> json) option"
  responseMode :: "string option"

text \<open>The JSON body sent to \<^verbatim>\<open>/workflows/run\<close>.\<close>

record request_body =
  body_inputs :: "string \<rightharpoonup> json"
  response_mode :: "string option"
  user :: string

text \<open>
  What the operations throw. \<^verbatim>\<open>APICallError\<close> is kept with its message; \<open>TypeError\<close> is the
  JavaScript error of reading a property of \<^verbatim>\<open>undefined\<close>.
\<close>

datatype error = APICallError string | TypeError

text \<open>
  The constructor, on the settings it keeps:
  \<^verbatim>\<open>if (!this.settings.responseMode) this.settings.responseMode = "streaming";\<close>
\<close>

definition DifyCompletionLanguageModel :: "completion_settings \<Rightarrow> completion_settings" where
  "DifyCompletionLanguageModel settings =
     (case responseMode settings of
        None \<Rightarrow> settings\<lparr>responseMode := Some ''streaming''\<rparr>
      | Some m \<Rightarrow> if m = [] then settings\<lparr>responseMode := Some ''streaming''\<rparr> else settings)"

text \<open>\<^verbatim>\<open>content.some(part => typeof part !== "string" && part.type === "image")\<close> (model.ts).\<close>

definition hasAttachments_v1 :: "message_content \<Rightarrow> bool" where
  "hasAttachments_v1 c =
     (case c of
        StringContent s \<Rightarrow> False
      | ArrayContent ps \<Rightarrow>
          list_ex (\<lambda>p. case p of StringPart s \<Rightarrow> False | ObjectPart t x \<Rightarrow> t = ''image'') ps)"

text \<open>The same test in unnamed/part_000, where the refused type is \<^verbatim>\<open>"file"\<close>.\<close>

definition hasAttachments_v2 :: "message_content \<Rightarrow> bool" where
  "hasAttachments_v2 c =
     (case c of
        StringContent s \<Rightarrow> False
      | ArrayContent ps \<Rightarrow>
          list_ex (\<lambda>p. case p of StringPart s \<Rightarrow> False | ObjectPart t x \<Rightarrow> t = ''file'') ps)"

text \<open>
  The callback of \<^verbatim>\<open>content.map\<close>: a string is itself, a text object gives its \<^verbatim>\<open>text\<close>,
  anything else the empty string. A text object without \<^verbatim>\<open>text\<close> gives \<^verbatim>\<open>undefined\<close> in
  model.ts and the empty string in part_000; \<^verbatim>\<open>filter(Boolean)\<close> drops both.
\<close>

fun partText :: "part \<Rightarrow> string" where
  "partText (StringPart s) = s"
| "partText (ObjectPart t x) =
     (if t = ''text'' then (case x of Some s \<Rightarrow> s | None \<Rightarrow> []) else [])"

text \<open>\<^verbatim>\<open>Array.prototype.join(sep)\<close> on strings.\<close>

fun join :: "string \<Rightarrow> string list \<Rightarrow> string" where
  "join sep [] = []"
| "join sep [x] = x"
| "join sep (x # y # ys) = x @ sep @ join sep (y # ys)"

definition extractQuery :: "message_content \<Rightarrow> string" where
  "extractQuery c =
     (case c of
        StringContent s \<Rightarrow> s
      | ArrayContent ps \<Rightarrow> join '' '' (filter (\<lambda>s. s \<noteq> []) (map partText ps)))"

text \<open>\<^verbatim>\<open>options.headers?.["user-id"] ?? "you_should_pass_user-id"\<close>\<close>

definition userIdOf :: "call_options \<Rightarrow> string" where
  "userIdOf options =
     (case headers options of
        None \<Rightarrow> ''you_should_pass_user-id''
      | Some h \<Rightarrow> (case h ''user-id'' of None \<Rightarrow> ''you_should_pass_user-id'' | Some u \<Rightarrow> u))"

text \<open>\<^verbatim>\<open>const { "user-id": _, ...cleanHeaders } = options.headers || {};\<close>\<close>

definition cleanHeaders :: "call_options \<Rightarrow> string \<rightharpoonup> string" where
  "cleanHeaders options =
     (case headers options of None \<Rightarrow> Map.empty | Some h \<Rightarrow> h(''user-id'' := None))"

text \<open>
  The part of \<^verbatim>\<open>getRequestBody\<close> after its three checks, shared by both versions: the query
  of the latest message, the user id taken out of the headers (\<^verbatim>\<open>options.headers\<close> is
  overwritten), and the body \<^verbatim>\<open>{inputs: {query, ...settings.inputs}, response_mode, user}\<close>.
\<close>

definition buildBody :: "completion_settings \<Rightarrow> call_options \<Rightarrow> message \<Rightarrow> request_body \<times> call_options" where
  "buildBody settings options latestMessage =
     (\<lparr>body_inputs =
          [''query'' \<mapsto> JStr (extractQuery (content latestMessage))] ++
          (case inputs settings of None \<Rightarrow> Map.empty | Some i \<Rightarrow> i),
       response_mode = responseMode settings,
       user = userIdOf options\<rparr>,
      options\<lparr>headers := Some (cleanHeaders options)\<rparr>)"

text \<open>
  \<^verbatim>\<open>getRequestBody\<close> of src/completion/model.ts: \<^verbatim>\<open>options.messages || options.prompt\<close> (an empty
  array is truthy, so it is not replaced), then the three \<^verbatim>\<open>throw new APICallError\<close>.
\<close>

definition getRequestBody_v1 :: "completion_settings \<Rightarrow> call_options \<Rightarrow> error + (request_body \<times> call_options)" where
  "getRequestBody_v1 settings options =
     (case (case messages options of Some ms \<Rightarrow> Some ms | None \<Rightarrow> prompt options) of
        None \<Rightarrow> Inl (APICallError ''No messages provided'')
      | Some ms \<Rightarrow>
          if ms = [] then Inl (APICallError ''No messages provided'')
          else if role (last ms) \<noteq> ''user'' then
            Inl (APICallError ''The last message must be a user message'')
          else if hasAttachments_v1 (content (last ms)) then
            Inl (APICallError ''Dify provider does not currently support image attachments'')
          else Inr (buildBody settings options (last ms)))"

text \<open>\<^verbatim>\<open>getRequestBody\<close> of unnamed/part_000: \<^verbatim>\<open>options.prompt || options.messages\<close>.\<close>

definition getRequestBody_v2 :: "completion_settings \<Rightarrow> call_options \<Rightarrow> error + (request_body \<times> call_options)" where
  "getRequestBody_v2 settings options =
     (case (case prompt options of Some ms \<Rightarrow> Some ms | None \<Rightarrow> messages options) of
        None \<Rightarrow> Inl (APICallError ''No messages provided'')
      | Some ms \<Rightarrow>
          if ms = [] then Inl (APICallError ''No messages provided'')
          else if role (last ms) \<noteq> ''user'' then
            Inl (APICallError ''The last message must be a user message'')
          else if hasAttachments_v2 (content (last ms)) then
            Inl (APICallError ''Dify provider does not currently support file attachments'')
          else Inr (buildBody settings options (last ms)))"

section \<open>The two operations\<close>

text \<open>
  The upstream's answer in the two cases the provider's own code deals with: a non-success
  status whose body decoded, by the error schema, to a record with the given \<^verbatim>\<open>message\<close>, or a
  success with the decoded value.
\<close>

datatype 'a http_reply = HttpError string | HttpOk 'a

text \<open>\<^verbatim>\<open>errorToMessage\<close> of \<^verbatim>\<open>difyFailedResponseHandler\<close>.\<close>

definition errorToMessage :: "string \<Rightarrow> string" where
  "errorToMessage message = ''Dify API error: '' @ message"

text \<open>
  \<^verbatim>\<open>postJsonToApi\<close> is the imported transport (@ai-sdk/provider-utils), taken here on the two
  answers above: on the non-success status the failed-response handler throws an
  \<^verbatim>\<open>APICallError\<close> whose message is \<^verbatim>\<open>errorToMessage\<close> of the decoded error body; on success the
  decoded value is returned. The library has further outcomes that are no value of
  \<open>http_reply\<close>: an error body that does not match the error schema, a success body that
  does not match the response schema, a network or abort error; and the provider factory's
  \<^verbatim>\<open>headers()\<close> can throw for a missing API key before the request. So nothing below says
  that the errors of the operations are only the ones stated.
\<close>

definition postJsonToApi :: "'a http_reply \<Rightarrow> error + 'a" where
  "postJsonToApi reply =
     (case reply of
        HttpError m \<Rightarrow> Inl (APICallError (errorToMessage m))
      | HttpOk v \<Rightarrow> Inr v)"

text \<open>
  \<^verbatim>\<open>metadata.usage\<close> of the blocking response, as src/completion/schema.ts declares it.
\<close>

record response_usage =
  completion_tokens :: real
  prompt_tokens :: real
  total_tokens :: real

text \<open>
  The decoded blocking response. src/completion/schema.ts requires \<^verbatim>\<open>metadata.usage\<close>; the
  schema of unnamed/part_001 does not list \<^verbatim>\<open>metadata\<close>, so a response decoded by it has none
  (\<open>resp_metadata = None\<close>). \<^verbatim>\<open>data.id\<close> and \<^verbatim>\<open>data.workflow_id\<close> are not read by the code and
  are left out.
\<close>

record completion_response =
  resp_task_id :: string
  resp_workflow_run_id :: "string option"
  resp_outputs :: "jobject option"
  resp_metadata :: "response_usage option"

text \<open>\<^verbatim>\<open>data.outputs?.result || ""\<close>\<close>

definition textContentOf :: "completion_response \<Rightarrow> json" where
  "textContentOf r =
     (case resp_outputs r of
        None \<Rightarrow> JStr []
      | Some os \<Rightarrow> (case map_of os ''result'' of
                     None \<Rightarrow> JStr []
                   | Some v \<Rightarrow> if truthy v then v else JStr []))"

definition responseWorkflowData :: "completion_response \<Rightarrow> dify_workflow_data" where
  "responseWorkflowData r =
     \<lparr>md_workflowRunId = map_option JStr (resp_workflow_run_id r),
      md_taskId = Some (JStr (resp_task_id r))\<rparr>"

text \<open>
  What \<^verbatim>\<open>doGenerate\<close> returns, without the raw call, the response id, timestamp and headers.
  \<open>gen_content\<close> holds the \<^verbatim>\<open>text\<close> of each \<^verbatim>\<open>{type: "text"}\<close> entry.
\<close>

record generate_result_v2 =
  gen_content :: "json list"
  gen_finishReason :: finish_reason
  gen_usage :: usage_v2
  gen_providerMetadata :: dify_workflow_data
  gen_request :: request_body

record generate_result_v1 =
  gen1_text :: json
  gen1_finishReason :: finish_reason
  gen1_usage :: usage_v1
  gen1_providerMetadata :: dify_workflow_data
  gen1_request :: request_body

text \<open>
  \<^verbatim>\<open>doGenerate\<close> of unnamed/part_000. The usage is read as
  \<^verbatim>\<open>typedData.metadata.usage.prompt_tokens\<close> with no guard: on a response without \<^verbatim>\<open>metadata\<close>
  the read of \<^verbatim>\<open>.usage\<close> throws.
\<close>

definition doGenerate_v2 ::
  "completion_settings \<Rightarrow> call_options \<Rightarrow> completion_response http_reply \<Rightarrow> error + generate_result_v2" where
  "doGenerate_v2 settings options reply =
     (case getRequestBody_v2 settings options of
        Inl e \<Rightarrow> Inl e
      | Inr (requestBody, options') \<Rightarrow>
          (case postJsonToApi reply of
             Inl e \<Rightarrow> Inl e
           | Inr typedData \<Rightarrow>
               (case resp_metadata typedData of
                  None \<Rightarrow> Inl TypeError
                | Some u \<Rightarrow>
                    Inr \<lparr>gen_content =
                           (if truthy (textContentOf typedData) then [textContentOf typedData] else []),
                         gen_finishReason = FinishStop,
                         gen_usage = \<lparr>inputTokens = prompt_tokens u,
                                      outputTokens = completion_tokens u,
                                      totalTokens = total_tokens u\<rparr>,
                         gen_providerMetadata = responseWorkflowData typedData,
                         gen_request = requestBody\<rparr>)))"

text \<open>
  \<^verbatim>\<open>doGenerate\<close> of src/completion/model.ts: \<^verbatim>\<open>usage: { promptTokens: 0, completionTokens: 0 }\<close>,
  whatever the response holds.
\<close>

definition doGenerate_v1 ::
  "completion_settings \<Rightarrow> call_options \<Rightarrow> completion_response http_reply \<Rightarrow> error + generate_result_v1" where
  "doGenerate_v1 settings options reply =
     (case getRequestBody_v1 settings options of
        Inl e \<Rightarrow> Inl e
      | Inr (requestBody, options') \<Rightarrow>
          (case postJsonToApi reply of
             Inl e \<Rightarrow> Inl e
           | Inr data \<Rightarrow>
               Inr \<lparr>gen1_text = textContentOf data,
                    gen1_finishReason = FinishStop,
                    gen1_usage = \<lparr>promptTokens = 0, completionTokens = 0\<rparr>,
                    gen1_providerMetadata = responseWorkflowData data,
                    gen1_request = requestBody\<rparr>))"

text \<open>
  What \<^verbatim>\<open>doStream\<close> returns: the transformed stream, read to its end, and the body that was
  sent (\<^verbatim>\<open>const body = { ...requestBody, response_mode: "streaming" }\<close>).
\<close>

record stream_result_v2 =
  str_stream :: "stream_part_v2 list"
  str_request :: request_body

record stream_result_v1 =
  str1_stream :: "stream_part_v1 list"
  str1_request :: request_body

definition doStream_v2 ::
  "string \<Rightarrow> completion_settings \<Rightarrow> call_options \<Rightarrow> chunk list http_reply \<Rightarrow> error + stream_result_v2" where
  "doStream_v2 msgId settings options reply =
     (case getRequestBody_v2 settings options of
        Inl e \<Rightarrow> Inl e
      | Inr (requestBody, options') \<Rightarrow>
          (case postJsonToApi reply of
             Inl e \<Rightarrow> Inl e
           | Inr responseStream \<Rightarrow>
               Inr \<lparr>str_stream = pipeThrough_v2 msgId initialState responseStream,
                    str_request = requestBody\<lparr>response_mode := Some ''streaming''\<rparr>\<rparr>))"

definition doStream_v1 ::
  "completion_settings \<Rightarrow> call_options \<Rightarrow> chunk list http_reply \<Rightarrow> error + stream_result_v1" where
  "doStream_v1 settings options reply =
     (case getRequestBody_v1 settings options of
        Inl e \<Rightarrow> Inl e
      | Inr (requestBody, options') \<Rightarrow>
          (case postJsonToApi reply of
             Inl e \<Rightarrow> Inl e
           | Inr responseStream \<Rightarrow>
               Inr \<lparr>str1_stream = pipeThrough_v1 initialState responseStream,
                    str1_request = requestBody\<lparr>response_mode := Some ''streaming''\<rparr>\<rparr>))"

section \<open>The chat model's terminal event\<close>


definition fixture_message_end_data :: jobject where
  "fixture_message_end_data =
     [(''event'', JStr ''message_end''), (''id'', JStr ''msg1''),
      (''data'', JObj [(''total_tokens'', JNum 50)]),
      (''metadata'', JObj [(''usage'', JObj [(''prompt_tokens'', JNum 10),
                                             (''completion_tokens'', JNum 25),
                                             (''total_tokens'', JNum 35)])]),
      (''conversation_id'', JStr ''conv1''), (''message_id'', JStr ''msg1'')]"

definition fixture_workflow_started :: jobject where
  "fixture_workflow_started =
     [(''event'', JStr ''workflow_started''), (''workflow_run_id'', JStr ''wfr1''),
      (''data'', JObj [(''id'', JStr ''wf1''), (''workflow_id'', JStr ''wfid1''),
                       (''created_at'', JNum 1625097600000)])]"

definition fixture_workflow_finished :: jobject where
  "fixture_workflow_finished =
     [(''event'', JStr ''workflow_finished''), (''workflow_run_id'', JStr ''wfr1''),
      (''data'', JObj [(''id'', JStr ''wf1''), (''workflow_id'', JStr ''wfid1''),
                       (''total_tokens'', JNum 15), (''created_at'', JNum 1625097600000)]),
      (''conversation_id'', JStr ''conv1''), (''message_id'', JStr ''msg1'')]"

text \<open>
  What the second \<^verbatim>\<open>message_end\<close> test expects of the finish part:
  \<^verbatim>\<open>expect(finishPart?.usage?.outputTokens).toBe(50)\<close>.
\<close>

definition expected_outputTokens_with_data :: real where
  "expected_outputTokens_with_data = 50"

text \<open>
  Modelled from the spec: the \<^verbatim>\<open>metadata.usage\<close> object of a \<^verbatim>\<open>message_end\<close> event (section 3),
  carrying \<^verbatim>\<open>prompt_tokens\<close>, \<^verbatim>\<open>completion_tokens\<close> and \<^verbatim>\<open>total_tokens\<close>. The event schema
  (src/dify-chat-schema.ts) is not among the sources.
\<close>

definition metadataUsage :: "jobject \<Rightarrow> response_usage option" where
  "metadataUsage data =
     (case map_of data ''metadata'' of
        Some (JObj m) \<Rightarrow>
          (case map_of m ''usage'' of
             Some (JObj u) \<Rightarrow>
               (case (map_of u ''prompt_tokens'', map_of u ''completion_tokens'',
                      map_of u ''total_tokens'') of
                  (Some (JNum p), Some (JNum c), Some (JNum t)) \<Rightarrow>
                    Some \<lparr>completion_tokens = c, prompt_tokens = p, total_tokens = t\<rparr>
                | _ \<Rightarrow> None)
           | _ \<Rightarrow> None)
      | _ \<Rightarrow> None)"

text \<open>
  Modelled from the spec: the nested \<^verbatim>\<open>data.total_tokens\<close> of a terminal event, "present and
  numeric" (section 4.3). The chat model's stream transform (src/dify-chat-language-model.ts)
  is not among the sources; only its test is.
\<close>

definition dataTotalTokens :: "jobject \<Rightarrow> real option" where
  "dataTotalTokens data =
     (case map_of data ''data'' of
        Some (JObj d) \<Rightarrow> (case map_of d ''total_tokens'' of Some (JNum n) \<Rightarrow> Some n | _ \<Rightarrow> None)
      | _ \<Rightarrow> None)"

text \<open>
  Modelled from the spec: the \<^verbatim>\<open>outputTokens\<close> of the finish part that the chat model's
  stream transform emits for \<^verbatim>\<open>message_end\<close>; the transform is not among the sources. The
  usage resolution order of section 4.3, first match wins: the numeric \<^verbatim>\<open>data.total_tokens\<close>;
  else \<^verbatim>\<open>completion_tokens\<close> of \<^verbatim>\<open>metadata.usage\<close>; else zero. (The repository's test of a
  \<^verbatim>\<open>message_end\<close> with a usage object and no \<^verbatim>\<open>data\<close> field expects 0 where the second rule
  gives \<^verbatim>\<open>completion_tokens\<close>; nothing proved below rests on the second rule.)
\<close>

definition chatMessageEndOutputTokens :: "jobject \<Rightarrow> real" where
  "chatMessageEndOutputTokens data =
     (case dataTotalTokens data of
        Some n \<Rightarrow> n
      | None \<Rightarrow> (case metadataUsage data of Some u \<Rightarrow> completion_tokens u | None \<Rightarrow> 0))"

section \<open>Concrete calls\<close>

text \<open>The call of the tests: \<^verbatim>\<open>prompt: [{ role: "user", content: [{ type: "text", text: "Hi" }] }]\<close>.\<close>

definition userPrompt :: call_options where
  "userPrompt =
     \<lparr>prompt = Some [\<lparr>role = ''user'', content = ArrayContent [ObjectPart ''text'' (Some ''Hi'')]\<rparr>],
      messages = None, headers = None\<rparr>"

text \<open>A call with an empty prompt.\<close>

definition emptyPrompt :: call_options where
  "emptyPrompt = \<lparr>prompt = Some [], messages = None, headers = None\<rparr>"

text \<open>A call whose last message is the assistant's.\<close>

definition assistantPrompt :: call_options where
  "assistantPrompt =
     \<lparr>prompt = Some [\<lparr>role = ''user'', content = ArrayContent [ObjectPart ''text'' (Some ''Hi'')]\<rparr>,
                     \<lparr>role = ''assistant'', content = StringContent ''Hello''\<rparr>],
      messages = None, headers = None\<rparr>"

text \<open>A call whose user message holds a file part, and one whose user message holds an image part.\<close>

definition filePrompt :: call_options where
  "filePrompt =
     \<lparr>prompt = Some [\<lparr>role = ''user'',
                      content = ArrayContent [ObjectPart ''text'' (Some ''Hi''), ObjectPart ''file'' None]\<rparr>],
      messages = None, headers = None\<rparr>"

definition imagePrompt :: call_options where
  "imagePrompt =
     \<lparr>prompt = Some [\<lparr>role = ''user'',
                      content = ArrayContent [ObjectPart ''text'' (Some ''Hi''), ObjectPart ''image'' None]\<rparr>],
      messages = None, headers = None\<rparr>"

definition noSettings :: completion_settings where
  "noSettings = \<lparr>inputs = None, responseMode = None\<rparr>"

definition blockingSettings :: completion_settings where
  "blockingSettings = \<lparr>inputs = None, responseMode = Some ''blocking''\<rparr>"

text \<open>A workflow response with the usage of the tests' blocking fixture.\<close>

definition responseWithUsage :: completion_response where
  "responseWithUsage =
     \<lparr>resp_task_id = ''task1'', resp_workflow_run_id = Some ''wfr1'',
      resp_outputs = Some [(''result'', JStr ''Hello world'')],
      resp_metadata = Some \<lparr>completion_tokens = 7, prompt_tokens = 5, total_tokens = 12\<rparr>\<rparr>"



section \<open>Decode failures\<close>

text \<open>
  Claim C1, as the code has it: for every chunk whose validation failed, the transform
  emits exactly one part, the \<open>error\<close> part carrying the chunk's error, and leaves
  \<open>workflowRunId\<close> and \<open>taskId\<close> as they were. This holds in both versions of the model.
\<close>

theorem decode_failure_emits_error_part:
  "transform_v2 msgId st (ParseFailure err) = ([ErrorPart err], st) \<and>
   transform_v1 st (ParseFailure err) = ([ErrorPartV1 err], st)"
  by simp

text \<open>Claim C1, witness: the malformed payload of the tests, on a state that holds ids.\<close>

theorem decode_failure_emits_error_part_witness:
  "transform_v2 ''msg-1'' \<lparr>workflowRunId = Some (JStr ''wfr1''), taskId = None\<rparr> (ParseFailure ''not-json'')
     = ([ErrorPart ''not-json''], \<lparr>workflowRunId = Some (JStr ''wfr1''), taskId = None\<rparr>) \<and>
   transform_v1 \<lparr>workflowRunId = Some (JStr ''wfr1''), taskId = None\<rparr> (ParseFailure ''not-json'')
     = ([ErrorPartV1 ''not-json''], \<lparr>workflowRunId = Some (JStr ''wfr1''), taskId = None\<rparr>)"
  using decode_failure_emits_error_part
    [of "''msg-1''" "\<lparr>workflowRunId = Some (JStr ''wfr1''), taskId = None\<rparr>" "''not-json''"]
  by simp

text \<open>
  Claim C1, counterexample: the claim says that the output for a failed chunk is empty.
  For the payload \<^verbatim>\<open>not-json\<close> the output of either version is not empty.
\<close>

theorem decode_failure_output_not_empty:
  "fst (transform_v2 ''msg-1'' initialState (ParseFailure ''not-json'')) \<noteq> [] \<and>
   fst (transform_v1 initialState (ParseFailure ''not-json'')) \<noteq> []"
  by simp

section \<open>Finish parts\<close>








text \<open>
  Claim C6: for every \<open>workflow_finished\<close> event the transform emits a \<open>finish\<close> part with
  finish reason \<open>stop\<close>, usage \<open>{inputTokens: 0, outputTokens: T, totalTokens: T}\<close> where \<open>T\<close>
  is \<open>data.total_tokens\<close> when \<open>data\<close> is an object holding a number there and 0 otherwise,
  and the provider metadata holds \<open>workflowRunId\<close> and \<open>taskId\<close> as they are after this
  event's own ids were stored. The LanguageModelV2 transform emits \<open>text-end\<close> before it;
  the LanguageModelV1 transform emits the same finish with its two usage fields.
\<close>

theorem workflow_finished_emits_finish:
  assumes "map_of data ''event'' = Some (JStr ''workflow_finished'')"
  shows "\<exists>T wr tk.
     transform_v2 msgId st (ParseSuccess data) =
       ([TextEnd msgId,
         Finish FinishStop \<lparr>md_workflowRunId = wr, md_taskId = tk\<rparr>
           \<lparr>inputTokens = 0, outputTokens = T, totalTokens = T\<rparr>],
        \<lparr>workflowRunId = wr, taskId = tk\<rparr>) \<and>
     transform_v1 st (ParseSuccess data) =
       ([FinishV1 FinishStop \<lparr>md_workflowRunId = wr, md_taskId = tk\<rparr>
           \<lparr>promptTokens = 0, completionTokens = T\<rparr>],
        \<lparr>workflowRunId = wr, taskId = tk\<rparr>) \<and>
     T = (case map_of data ''data'' of
            Some (JObj d) \<Rightarrow> (case map_of d ''total_tokens'' of Some (JNum n) \<Rightarrow> n | _ \<Rightarrow> 0)
          | _ \<Rightarrow> 0) \<and>
     wr = (case map_of data ''workflow_run_id'' of
             Some v \<Rightarrow> if truthy v then Some v else workflowRunId st
           | None \<Rightarrow> workflowRunId st) \<and>
     tk = (case map_of data ''task_id'' of
             Some v \<Rightarrow> if truthy v then Some v else taskId st
           | None \<Rightarrow> taskId st)"
  using assms
  by (simp add: Let_def storeIds_def workflowTotalTokens_def split: option.splits)

text \<open>
  Claim C6, witness: the \<open>workflow_finished\<close> event of the tests, on a state that holds a
  task id and no run id. The run id in the metadata is the one this event brings.
\<close>

theorem workflow_finished_emits_finish_witness:
  "transform_v2 ''msg-1'' \<lparr>workflowRunId = None, taskId = Some (JStr ''t0'')\<rparr>
      (ParseSuccess fixture_workflow_finished) =
     ([TextEnd ''msg-1'',
       Finish FinishStop
         \<lparr>md_workflowRunId = Some (JStr ''wfr1''), md_taskId = Some (JStr ''t0'')\<rparr>
         \<lparr>inputTokens = 0, outputTokens = 15, totalTokens = 15\<rparr>],
      \<lparr>workflowRunId = Some (JStr ''wfr1''), taskId = Some (JStr ''t0'')\<rparr>)"
  using workflow_finished_emits_finish [of fixture_workflow_finished "''msg-1''"
      "\<lparr>workflowRunId = None, taskId = Some (JStr ''t0'')\<rparr>"]
  by (simp add: fixture_workflow_finished_def)

section \<open>Text spans\<close>

lemma start_count_v2:
  "length (filter isTextStart (fst (transform_v2 msgId st c))) =
     (if startsWithRunId c then 1 else 0)"
  by (cases c) (auto simp: Let_def split: option.splits json.splits)

lemma end_count_v2:
  "length (filter isTextEnd (fst (transform_v2 msgId st c))) =
     (if eventIs ''workflow_finished'' c then 1 else 0)"
  by (cases c) (auto simp: Let_def split: option.splits json.splits)

lemma text_starts_v2:
  "length (filter isTextStart (pipeThrough_v2 msgId st cs)) = length (filter startsWithRunId cs)"
proof (induction cs arbitrary: st)
  case Nil
  show ?case by simp
next
  case (Cons c cs)
  obtain parts st' where t: "transform_v2 msgId st c = (parts, st')"
    by (cases "transform_v2 msgId st c")
  have "length (filter isTextStart parts) = (if startsWithRunId c then 1 else 0)"
    using start_count_v2 [of msgId st c] t by simp
  then show ?case using t Cons.IH [of st'] by simp
qed

lemma text_ends_v2:
  "length (filter isTextEnd (pipeThrough_v2 msgId st cs)) =
     length (filter (eventIs ''workflow_finished'') cs)"
proof (induction cs arbitrary: st)
  case Nil
  show ?case by simp
next
  case (Cons c cs)
  obtain parts st' where t: "transform_v2 msgId st c = (parts, st')"
    by (cases "transform_v2 msgId st c")
  have "length (filter isTextEnd parts) = (if eventIs ''workflow_finished'' c then 1 else 0)"
    using end_count_v2 [of msgId st c] t by simp
  then show ?case using t Cons.IH [of st'] by simp
qed

lemma started_parts:
  "startsWithRunId c \<Longrightarrow>
     \<exists>s. fst (transform_v2 msgId st c) = [ResponseMetadata s, TextStart msgId]"
  by (cases c) (auto simp: Let_def split: option.splits json.splits)

lemma finished_parts:
  "eventIs ''workflow_finished'' c \<Longrightarrow>
     \<exists>r m u. fst (transform_v2 msgId st c) = [TextEnd msgId, Finish r m u]"
  by (cases c) (auto simp: Let_def split: option.splits json.splits)

text \<open>
  Claim C7, as the code has it: the transform keeps no record of an open text span. From
  any state, a \<open>workflow_started\<close> event whose \<open>workflow_run_id\<close> is a string emits
  \<open>response-metadata\<close> followed by \<open>text-start\<close>, and a \<open>workflow_finished\<close> event emits
  \<open>text-end\<close> followed by \<open>finish\<close>. So a stream has as many \<open>text-start\<close> parts as it has
  such \<open>workflow_started\<close> events and as many \<open>text-end\<close> parts as it has
  \<open>workflow_finished\<close> events.
\<close>

theorem text_span_parts_follow_events:
  "length (filter isTextStart (pipeThrough_v2 msgId st cs)) = length (filter startsWithRunId cs) \<and>
   length (filter isTextEnd (pipeThrough_v2 msgId st cs)) =
     length (filter (eventIs ''workflow_finished'') cs) \<and>
   (startsWithRunId c \<longrightarrow>
      (\<exists>s. fst (transform_v2 msgId st' c) = [ResponseMetadata s, TextStart msgId])) \<and>
   (eventIs ''workflow_finished'' c \<longrightarrow>
      (\<exists>r m u. fst (transform_v2 msgId st' c) = [TextEnd msgId, Finish r m u]))"
  using text_starts_v2 text_ends_v2 started_parts finished_parts by blast

text \<open>
  Claim C7, witness: the \<open>workflow_started\<close> and \<open>workflow_finished\<close> events of the tests,
  in that order, give one \<open>text-start\<close> and one \<open>text-end\<close>.
\<close>

theorem text_span_parts_follow_events_witness:
  "length (filter isTextStart (pipeThrough_v2 ''msg-1'' initialState
      [ParseSuccess fixture_workflow_started, ParseSuccess fixture_workflow_finished])) = 1 \<and>
   length (filter isTextEnd (pipeThrough_v2 ''msg-1'' initialState
      [ParseSuccess fixture_workflow_started, ParseSuccess fixture_workflow_finished])) = 1 \<and>
   fst (transform_v2 ''msg-1'' initialState (ParseSuccess fixture_workflow_started)) =
     [ResponseMetadata ''wfr1'', TextStart ''msg-1'']"
  using text_span_parts_follow_events [of "''msg-1''" initialState
      "[ParseSuccess fixture_workflow_started, ParseSuccess fixture_workflow_finished]"
      "ParseSuccess fixture_workflow_started" initialState]
  by (simp add: fixture_workflow_started_def fixture_workflow_finished_def Let_def)

text \<open>
  Claim C7, counterexample: two \<open>workflow_started\<close> events give two \<open>text-start\<close> parts, and
  a stream that is one \<open>workflow_finished\<close> event gives a \<open>text-end\<close> though no span was
  opened.
\<close>

theorem text_start_twice_and_text_end_without_span:
  "length (filter isTextStart (pipeThrough_v2 ''msg-1'' initialState
      [ParseSuccess fixture_workflow_started, ParseSuccess fixture_workflow_started])) = 2 \<and>
   pipeThrough_v2 ''msg-1'' initialState [ParseSuccess fixture_workflow_finished] =
      [TextEnd ''msg-1'',
       Finish FinishStop \<lparr>md_workflowRunId = Some (JStr ''wfr1''), md_taskId = None\<rparr>
         \<lparr>inputTokens = 0, outputTokens = 15, totalTokens = 15\<rparr>]"
  by (simp add: fixture_workflow_started_def fixture_workflow_finished_def Let_def storeIds_def
      workflowTotalTokens_def initialState_def)

section \<open>Errors of the operations\<close>

lemma getRequestBody_v2_no_messages:
  assumes "(case prompt opts of Some x \<Rightarrow> Some x | None \<Rightarrow> messages opts) = None \<or>
           (case prompt opts of Some x \<Rightarrow> Some x | None \<Rightarrow> messages opts) = Some []"
  shows "getRequestBody_v2 s opts = Inl (APICallError ''No messages provided'')"
  using assms by (auto simp: getRequestBody_v2_def)

lemma getRequestBody_v2_not_user:
  assumes "(case prompt opts of Some x \<Rightarrow> Some x | None \<Rightarrow> messages opts) = Some ms"
    and "ms \<noteq> []" and "role (last ms) \<noteq> ''user''"
  shows "getRequestBody_v2 s opts = Inl (APICallError ''The last message must be a user message'')"
  using assms by (simp add: getRequestBody_v2_def)

lemma getRequestBody_v2_attachment:
  assumes "(case prompt opts of Some x \<Rightarrow> Some x | None \<Rightarrow> messages opts) = Some ms"
    and "ms \<noteq> []" and "role (last ms) = ''user''" and "hasAttachments_v2 (content (last ms))"
  shows "getRequestBody_v2 s opts =
           Inl (APICallError ''Dify provider does not currently support file attachments'')"
  using assms by (simp add: getRequestBody_v2_def)

lemma getRequestBody_v2_body:
  assumes "(case prompt opts of Some x \<Rightarrow> Some x | None \<Rightarrow> messages opts) = Some ms"
    and "ms \<noteq> []" and "role (last ms) = ''user''" and "\<not> hasAttachments_v2 (content (last ms))"
  shows "getRequestBody_v2 s opts = Inr (buildBody s opts (last ms))"
  using assms by (simp add: getRequestBody_v2_def)

lemma getRequestBody_v1_no_messages:
  assumes "(case messages opts of Some x \<Rightarrow> Some x | None \<Rightarrow> prompt opts) = None \<or>
           (case messages opts of Some x \<Rightarrow> Some x | None \<Rightarrow> prompt opts) = Some []"
  shows "getRequestBody_v1 s opts = Inl (APICallError ''No messages provided'')"
  using assms by (auto simp: getRequestBody_v1_def)

lemma getRequestBody_v1_not_user:
  assumes "(case messages opts of Some x \<Rightarrow> Some x | None \<Rightarrow> prompt opts) = Some ms"
    and "ms \<noteq> []" and "role (last ms) \<noteq> ''user''"
  shows "getRequestBody_v1 s opts = Inl (APICallError ''The last message must be a user message'')"
  using assms by (simp add: getRequestBody_v1_def)

lemma getRequestBody_v1_attachment:
  assumes "(case messages opts of Some x \<Rightarrow> Some x | None \<Rightarrow> prompt opts) = Some ms"
    and "ms \<noteq> []" and "role (last ms) = ''user''" and "hasAttachments_v1 (content (last ms))"
  shows "getRequestBody_v1 s opts =
           Inl (APICallError ''Dify provider does not currently support image attachments'')"
  using assms by (simp add: getRequestBody_v1_def)

lemma getRequestBody_v1_body:
  assumes "(case messages opts of Some x \<Rightarrow> Some x | None \<Rightarrow> prompt opts) = Some ms"
    and "ms \<noteq> []" and "role (last ms) = ''user''" and "\<not> hasAttachments_v1 (content (last ms))"
  shows "getRequestBody_v1 s opts = Inr (buildBody s opts (last ms))"
  using assms by (simp add: getRequestBody_v1_def)

lemma operations_v2_rejected:
  "getRequestBody_v2 s opts = Inl e \<Longrightarrow>
     doGenerate_v2 s opts rg = Inl e \<and> doStream_v2 msgId s opts rs = Inl e"
  by (simp add: doGenerate_v2_def doStream_v2_def)

lemma operations_v1_rejected:
  "getRequestBody_v1 s opts = Inl e \<Longrightarrow>
     doGenerate_v1 s opts rg = Inl e \<and> doStream_v1 s opts rs = Inl e"
  by (simp add: doGenerate_v1_def doStream_v1_def)

lemma operations_v2_sent:
  "getRequestBody_v2 s opts = Inr p \<Longrightarrow>
     doGenerate_v2 s opts (HttpError m) = Inl (APICallError (''Dify API error: '' @ m)) \<and>
     doStream_v2 msgId s opts (HttpError m) = Inl (APICallError (''Dify API error: '' @ m)) \<and>
     (\<exists>res. doStream_v2 msgId s opts (HttpOk cs) = Inr res \<and>
             str_stream res = pipeThrough_v2 msgId initialState cs)"
  by (simp add: doGenerate_v2_def doStream_v2_def postJsonToApi_def errorToMessage_def
      case_prod_beta)

lemma operations_v1_sent:
  "getRequestBody_v1 s opts = Inr p \<Longrightarrow>
     doGenerate_v1 s opts (HttpError m) = Inl (APICallError (''Dify API error: '' @ m)) \<and>
     doStream_v1 s opts (HttpError m) = Inl (APICallError (''Dify API error: '' @ m)) \<and>
     (\<exists>res. doStream_v1 s opts (HttpOk cs) = Inr res \<and>
             str1_stream res = pipeThrough_v1 initialState cs)"
  by (simp add: doGenerate_v1_def doStream_v1_def postJsonToApi_def errorToMessage_def
      case_prod_beta)

text \<open>
  Claim C5, as the code has it. The error of a non-success status is not the only one. In
  both versions \<open>getRequestBody\<close> runs first and throws an \<open>APICallError\<close> of its own, so that
  both operations fail whatever the upstream would answer: \<open>No messages provided\<close> when the
  call has no messages or an empty list, \<open>The last message must be a user message\<close> when the
  last message's role is not \<open>user\<close>, and the attachment message when that message holds a
  file part (LanguageModelV2) or an image part (LanguageModelV1). When the three checks
  pass and the upstream answers with a non-success status whose error body has message
  \<open>m\<close>, both operations fail with the message \<open>Dify API error: \<close> followed by \<open>m\<close>. When they
  pass and the upstream answers with success, \<open>doStream\<close> returns the transformed stream for
  every chunk sequence, failed chunks included.
\<close>

theorem operations_fail_on_checks_and_status:
  "((case prompt opts of Some x \<Rightarrow> Some x | None \<Rightarrow> messages opts) = None \<or>
    (case prompt opts of Some x \<Rightarrow> Some x | None \<Rightarrow> messages opts) = Some [] \<longrightarrow>
      doGenerate_v2 s opts rg = Inl (APICallError ''No messages provided'') \<and>
      doStream_v2 msgId s opts rs = Inl (APICallError ''No messages provided'')) \<and>
   ((case prompt opts of Some x \<Rightarrow> Some x | None \<Rightarrow> messages opts) = Some ms \<and> ms \<noteq> [] \<and>
    role (last ms) \<noteq> ''user'' \<longrightarrow>
      doGenerate_v2 s opts rg = Inl (APICallError ''The last message must be a user message'') \<and>
      doStream_v2 msgId s opts rs = Inl (APICallError ''The last message must be a user message'')) \<and>
   ((case prompt opts of Some x \<Rightarrow> Some x | None \<Rightarrow> messages opts) = Some ms \<and> ms \<noteq> [] \<and>
    role (last ms) = ''user'' \<and> hasAttachments_v2 (content (last ms)) \<longrightarrow>
      doGenerate_v2 s opts rg =
        Inl (APICallError ''Dify provider does not currently support file attachments'') \<and>
      doStream_v2 msgId s opts rs =
        Inl (APICallError ''Dify provider does not currently support file attachments'')) \<and>
   ((case prompt opts of Some x \<Rightarrow> Some x | None \<Rightarrow> messages opts) = Some ms \<and> ms \<noteq> [] \<and>
    role (last ms) = ''user'' \<and> \<not> hasAttachments_v2 (content (last ms)) \<longrightarrow>
      doGenerate_v2 s opts (HttpError m) = Inl (APICallError (''Dify API error: '' @ m)) \<and>
      doStream_v2 msgId s opts (HttpError m) = Inl (APICallError (''Dify API error: '' @ m)) \<and>
      (\<exists>res. doStream_v2 msgId s opts (HttpOk cs) = Inr res \<and>
              str_stream res = pipeThrough_v2 msgId initialState cs)) \<and>
   ((case messages opts of Some x \<Rightarrow> Some x | None \<Rightarrow> prompt opts) = None \<or>
    (case messages opts of Some x \<Rightarrow> Some x | None \<Rightarrow> prompt opts) = Some [] \<longrightarrow>
      doGenerate_v1 s opts rg = Inl (APICallError ''No messages provided'') \<and>
      doStream_v1 s opts rs = Inl (APICallError ''No messages provided'')) \<and>
   ((case messages opts of Some x \<Rightarrow> Some x | None \<Rightarrow> prompt opts) = Some ms \<and> ms \<noteq> [] \<and>
    role (last ms) \<noteq> ''user'' \<longrightarrow>
      doGenerate_v1 s opts rg = Inl (APICallError ''The last message must be a user message'') \<and>
      doStream_v1 s opts rs = Inl (APICallError ''The last message must be a user message'')) \<and>
   ((case messages opts of Some x \<Rightarrow> Some x | None \<Rightarrow> prompt opts) = Some ms \<and> ms \<noteq> [] \<and>
    role (last ms) = ''user'' \<and> hasAttachments_v1 (content (last ms)) \<longrightarrow>
      doGenerate_v1 s opts rg =
        Inl (APICallError ''Dify provider does not currently support image attachments'') \<and>
      doStream_v1 s opts rs =
        Inl (APICallError ''Dify provider does not currently support image attachments'')) \<and>
   ((case messages opts of Some x \<Rightarrow> Some x | None \<Rightarrow> prompt opts) = Some ms \<and> ms \<noteq> [] \<and>
    role (last ms) = ''user'' \<and> \<not> hasAttachments_v1 (content (last ms)) \<longrightarrow>
      doGenerate_v1 s opts (HttpError m) = Inl (APICallError (''Dify API error: '' @ m)) \<and>
      doStream_v1 s opts (HttpError m) = Inl (APICallError (''Dify API error: '' @ m)) \<and>
      (\<exists>res. doStream_v1 s opts (HttpOk cs) = Inr res \<and>
              str1_stream res = pipeThrough_v1 initialState cs))"
proof (intro conjI impI)
  assume a: "(case prompt opts of Some x \<Rightarrow> Some x | None \<Rightarrow> messages opts) = None \<or>
    (case prompt opts of Some x \<Rightarrow> Some x | None \<Rightarrow> messages opts) = Some []"
  show "doGenerate_v2 s opts rg = Inl (APICallError ''No messages provided'')"
    using operations_v2_rejected [OF getRequestBody_v2_no_messages [OF a]] by simp
  show "doStream_v2 msgId s opts rs = Inl (APICallError ''No messages provided'')"
    using operations_v2_rejected [OF getRequestBody_v2_no_messages [OF a]] by simp
next
  assume a: "(case prompt opts of Some x \<Rightarrow> Some x | None \<Rightarrow> messages opts) = Some ms \<and> ms \<noteq> [] \<and>
    role (last ms) \<noteq> ''user''"
  then have g: "getRequestBody_v2 s opts = Inl (APICallError ''The last message must be a user message'')"
    using getRequestBody_v2_not_user by blast
  show "doGenerate_v2 s opts rg = Inl (APICallError ''The last message must be a user message'')"
    using operations_v2_rejected [OF g] by simp
  show "doStream_v2 msgId s opts rs = Inl (APICallError ''The last message must be a user message'')"
    using operations_v2_rejected [OF g] by simp
next
  assume a: "(case prompt opts of Some x \<Rightarrow> Some x | None \<Rightarrow> messages opts) = Some ms \<and> ms \<noteq> [] \<and>
    role (last ms) = ''user'' \<and> hasAttachments_v2 (content (last ms))"
  then have g: "getRequestBody_v2 s opts =
      Inl (APICallError ''Dify provider does not currently support file attachments'')"
    using getRequestBody_v2_attachment by blast
  show "doGenerate_v2 s opts rg =
      Inl (APICallError ''Dify provider does not currently support file attachments'')"
    using operations_v2_rejected [OF g] by simp
  show "doStream_v2 msgId s opts rs =
      Inl (APICallError ''Dify provider does not currently support file attachments'')"
    using operations_v2_rejected [OF g] by simp
next
  assume a: "(case prompt opts of Some x \<Rightarrow> Some x | None \<Rightarrow> messages opts) = Some ms \<and> ms \<noteq> [] \<and>
    role (last ms) = ''user'' \<and> \<not> hasAttachments_v2 (content (last ms))"
  then have g: "getRequestBody_v2 s opts = Inr (buildBody s opts (last ms))"
    using getRequestBody_v2_body by blast
  show "doGenerate_v2 s opts (HttpError m) = Inl (APICallError (''Dify API error: '' @ m))"
    using operations_v2_sent [OF g] by simp
  show "doStream_v2 msgId s opts (HttpError m) = Inl (APICallError (''Dify API error: '' @ m))"
    using operations_v2_sent [OF g] by simp
  show "\<exists>res. doStream_v2 msgId s opts (HttpOk cs) = Inr res \<and>
              str_stream res = pipeThrough_v2 msgId initialState cs"
    using operations_v2_sent [OF g] by simp
next
  assume a: "(case messages opts of Some x \<Rightarrow> Some x | None \<Rightarrow> prompt opts) = None \<or>
    (case messages opts of Some x \<Rightarrow> Some x | None \<Rightarrow> prompt opts) = Some []"
  show "doGenerate_v1 s opts rg = Inl (APICallError ''No messages provided'')"
    using operations_v1_rejected [OF getRequestBody_v1_no_messages [OF a]] by simp
  show "doStream_v1 s opts rs = Inl (APICallError ''No messages provided'')"
    using operations_v1_rejected [OF getRequestBody_v1_no_messages [OF a]] by simp
next
  assume a: "(case messages opts of Some x \<Rightarrow> Some x | None \<Rightarrow> prompt opts) = Some ms \<and> ms \<noteq> [] \<and>
    role (last ms) \<noteq> ''user''"
  then have g: "getRequestBody_v1 s opts = Inl (APICallError ''The last message must be a user message'')"
    using getRequestBody_v1_not_user by blast
  show "doGenerate_v1 s opts rg = Inl (APICallError ''The last message must be a user message'')"
    using operations_v1_rejected [OF g] by simp
  show "doStream_v1 s opts rs = Inl (APICallError ''The last message must be a user message'')"
    using operations_v1_rejected [OF g] by simp
next
  assume a: "(case messages opts of Some x \<Rightarrow> Some x | None \<Rightarrow> prompt opts) = Some ms \<and> ms \<noteq> [] \<and>
    role (last ms) = ''user'' \<and> hasAttachments_v1 (content (last ms))"
  then have g: "getRequestBody_v1 s opts =
      Inl (APICallError ''Dify provider does not currently support image attachments'')"
    using getRequestBody_v1_attachment by blast
  show "doGenerate_v1 s opts rg =
      Inl (APICallError ''Dify provider does not currently support image attachments'')"
    using operations_v1_rejected [OF g] by simp
  show "doStream_v1 s opts rs =
      Inl (APICallError ''Dify provider does not currently support image attachments'')"
    using operations_v1_rejected [OF g] by simp
next
  assume a: "(case messages opts of Some x \<Rightarrow> Some x | None \<Rightarrow> prompt opts) = Some ms \<and> ms \<noteq> [] \<and>
    role (last ms) = ''user'' \<and> \<not> hasAttachments_v1 (content (last ms))"
  then have g: "getRequestBody_v1 s opts = Inr (buildBody s opts (last ms))"
    using getRequestBody_v1_body by blast
  show "doGenerate_v1 s opts (HttpError m) = Inl (APICallError (''Dify API error: '' @ m))"
    using operations_v1_sent [OF g] by simp
  show "doStream_v1 s opts (HttpError m) = Inl (APICallError (''Dify API error: '' @ m))"
    using operations_v1_sent [OF g] by simp
  show "\<exists>res. doStream_v1 s opts (HttpOk cs) = Inr res \<and>
              str1_stream res = pipeThrough_v1 initialState cs"
    using operations_v1_sent [OF g] by simp
qed

text \<open>
  Claim C5, witness: the failed call of the tests (status 400, message
  \<open>Bad Request: Invalid input parameters\<close>), a successful stream that holds a failed chunk,
  and the three rejected calls: an empty prompt, a prompt that ends with the assistant's
  message, and a user message with a file part or an image part.
\<close>

theorem operations_fail_on_checks_and_status_witness:
  "doGenerate_v2 noSettings userPrompt (HttpError ''Bad Request: Invalid input parameters'') =
     Inl (APICallError ''Dify API error: Bad Request: Invalid input parameters'') \<and>
   doStream_v1 noSettings userPrompt (HttpError ''Bad Request: Invalid input parameters'') =
     Inl (APICallError ''Dify API error: Bad Request: Invalid input parameters'') \<and>
   map_sum id str_stream (doStream_v2 ''msg-1'' noSettings userPrompt (HttpOk [ParseFailure ''not-json''])) =
     Inr [ErrorPart ''not-json''] \<and>
   doStream_v2 ''msg-1'' noSettings emptyPrompt (HttpOk []) =
     Inl (APICallError ''No messages provided'') \<and>
   doGenerate_v1 noSettings assistantPrompt (HttpOk responseWithUsage) =
     Inl (APICallError ''The last message must be a user message'') \<and>
   doGenerate_v2 noSettings filePrompt (HttpOk responseWithUsage) =
     Inl (APICallError ''Dify provider does not currently support file attachments'') \<and>
   doStream_v1 noSettings imagePrompt (HttpOk []) =
     Inl (APICallError ''Dify provider does not currently support image attachments'')"
  using operations_fail_on_checks_and_status
      [of userPrompt noSettings _ "''msg-1''" _ "the (prompt userPrompt)"
        "''Bad Request: Invalid input parameters''" "[ParseFailure ''not-json'']"]
    operations_fail_on_checks_and_status
      [of emptyPrompt noSettings "HttpOk responseWithUsage" "''msg-1''" "HttpOk []"]
    operations_fail_on_checks_and_status
      [of assistantPrompt noSettings "HttpOk responseWithUsage" "''msg-1''" "HttpOk []"
        "the (prompt assistantPrompt)"]
    operations_fail_on_checks_and_status
      [of filePrompt noSettings "HttpOk responseWithUsage" "''msg-1''" "HttpOk []"
        "the (prompt filePrompt)"]
    operations_fail_on_checks_and_status
      [of imagePrompt noSettings "HttpOk responseWithUsage" "''msg-1''" "HttpOk []"
        "the (prompt imagePrompt)"]
  by (auto simp: userPrompt_def emptyPrompt_def assistantPrompt_def filePrompt_def imagePrompt_def
      hasAttachments_v2_def hasAttachments_v1_def)

text \<open>
  Claim C5, counterexample: with an empty prompt and an upstream that answers with
  success, each of the four operations throws \<open>No messages provided\<close>, which is not the
  error of a non-success status.
\<close>

theorem empty_prompt_throws_before_request:
  "doGenerate_v2 noSettings emptyPrompt (HttpOk responseWithUsage) =
     Inl (APICallError ''No messages provided'') \<and>
   doStream_v2 ''msg-1'' noSettings emptyPrompt (HttpOk []) =
     Inl (APICallError ''No messages provided'') \<and>
   doGenerate_v1 noSettings emptyPrompt (HttpOk responseWithUsage) =
     Inl (APICallError ''No messages provided'') \<and>
   doStream_v1 noSettings emptyPrompt (HttpOk []) =
     Inl (APICallError ''No messages provided'')"
  by (simp add: doGenerate_v2_def doStream_v2_def doGenerate_v1_def doStream_v1_def
      getRequestBody_v2_def getRequestBody_v1_def emptyPrompt_def)

section \<open>Usage and finish reason of the two modes\<close>

lemma userPrompt_body_v2:
  "getRequestBody_v2 s userPrompt = Inr (buildBody s userPrompt (last (the (prompt userPrompt))))"
  by (simp add: getRequestBody_v2_def userPrompt_def hasAttachments_v2_def)

lemma userPrompt_body_v1:
  "getRequestBody_v1 s userPrompt = Inr (buildBody s userPrompt (last (the (prompt userPrompt))))"
  by (simp add: getRequestBody_v1_def userPrompt_def hasAttachments_v1_def)







section \<open>The response mode of the request\<close>

lemma getRequestBody_v2_mode:
  "getRequestBody_v2 s opts = Inr p \<Longrightarrow> response_mode (fst p) = responseMode s"
  by (auto simp: getRequestBody_v2_def buildBody_def split: option.splits if_splits)

lemma getRequestBody_v1_mode:
  "getRequestBody_v1 s opts = Inr p \<Longrightarrow> response_mode (fst p) = responseMode s"
  by (auto simp: getRequestBody_v1_def buildBody_def split: option.splits if_splits)

lemma constructed_mode:
  "responseMode (DifyCompletionLanguageModel s) =
     (case responseMode s of
        None \<Rightarrow> Some ''streaming''
      | Some m \<Rightarrow> if m = [] then Some ''streaming'' else Some m)"
  by (simp add: DifyCompletionLanguageModel_def split: option.splits)

lemma doGenerate_v2_request:
  "doGenerate_v2 s opts rg = Inr g \<Longrightarrow>
     \<exists>p. getRequestBody_v2 s opts = Inr p \<and> gen_request g = fst p"
  by (auto simp: doGenerate_v2_def split: sum.splits prod.splits option.splits)

lemma doGenerate_v1_request:
  "doGenerate_v1 s opts rg = Inr g \<Longrightarrow>
     \<exists>p. getRequestBody_v1 s opts = Inr p \<and> gen1_request g = fst p"
  by (auto simp: doGenerate_v1_def split: sum.splits prod.splits)

lemma doStream_v2_request:
  "doStream_v2 msgId s opts rs = Inr res \<Longrightarrow> response_mode (str_request res) = Some ''streaming''"
  by (auto simp: doStream_v2_def split: sum.splits prod.splits)

lemma doStream_v1_request:
  "doStream_v1 s opts rs = Inr res \<Longrightarrow> response_mode (str1_request res) = Some ''streaming''"
  by (auto simp: doStream_v1_def split: sum.splits prod.splits)

text \<open>
  Claim C10: whatever the settings hold, the body that \<open>doStream\<close> sends has
  \<open>response_mode = "streaming"\<close>. The body that \<open>doGenerate\<close> sends has the \<open>responseMode\<close> of
  the settings as the constructor left them: the caller's value, or \<open>"streaming"\<close> when the
  caller set none.
\<close>

theorem doStream_forces_streaming_mode:
  "(doStream_v2 msgId s' opts rs = Inr res \<longrightarrow>
      response_mode (str_request res) = Some ''streaming'') \<and>
   (doStream_v1 s' opts rs = Inr res1 \<longrightarrow>
      response_mode (str1_request res1) = Some ''streaming'') \<and>
   (doGenerate_v2 (DifyCompletionLanguageModel s) opts rg = Inr g \<longrightarrow>
      response_mode (gen_request g) =
        (case responseMode s of
           None \<Rightarrow> Some ''streaming''
         | Some m \<Rightarrow> if m = [] then Some ''streaming'' else Some m)) \<and>
   (doGenerate_v1 (DifyCompletionLanguageModel s) opts rg = Inr g1 \<longrightarrow>
      response_mode (gen1_request g1) =
        (case responseMode s of
           None \<Rightarrow> Some ''streaming''
         | Some m \<Rightarrow> if m = [] then Some ''streaming'' else Some m))"
proof (intro conjI impI)
  assume "doStream_v2 msgId s' opts rs = Inr res"
  then show "response_mode (str_request res) = Some ''streaming''"
    by (rule doStream_v2_request)
next
  assume "doStream_v1 s' opts rs = Inr res1"
  then show "response_mode (str1_request res1) = Some ''streaming''"
    by (rule doStream_v1_request)
next
  assume "doGenerate_v2 (DifyCompletionLanguageModel s) opts rg = Inr g"
  then obtain p where "getRequestBody_v2 (DifyCompletionLanguageModel s) opts = Inr p"
      and "gen_request g = fst p"
    using doGenerate_v2_request by blast
  then have "response_mode (gen_request g) = responseMode (DifyCompletionLanguageModel s)"
    using getRequestBody_v2_mode by simp
  then show "response_mode (gen_request g) =
        (case responseMode s of
           None \<Rightarrow> Some ''streaming''
         | Some m \<Rightarrow> if m = [] then Some ''streaming'' else Some m)"
    by (simp only: constructed_mode)
next
  assume "doGenerate_v1 (DifyCompletionLanguageModel s) opts rg = Inr g1"
  then obtain p where "getRequestBody_v1 (DifyCompletionLanguageModel s) opts = Inr p"
      and "gen1_request g1 = fst p"
    using doGenerate_v1_request by blast
  then have "response_mode (gen1_request g1) = responseMode (DifyCompletionLanguageModel s)"
    using getRequestBody_v1_mode by simp
  then show "response_mode (gen1_request g1) =
        (case responseMode s of
           None \<Rightarrow> Some ''streaming''
         | Some m \<Rightarrow> if m = [] then Some ''streaming'' else Some m)"
    by (simp only: constructed_mode)
qed

text \<open>
  Claim C10, witness: a model built with \<open>responseMode: "blocking"\<close>. Its \<open>doStream\<close> sends
  \<open>"streaming"\<close>, its \<open>doGenerate\<close> sends \<open>"blocking"\<close>.
\<close>

theorem doStream_forces_streaming_mode_witness:
  "map_sum id (\<lambda>res. response_mode (str_request res))
     (doStream_v2 ''msg-1'' (DifyCompletionLanguageModel blockingSettings) userPrompt (HttpOk []))
     = Inr (Some ''streaming'') \<and>
   map_sum id (\<lambda>g. response_mode (gen_request g))
     (doGenerate_v2 (DifyCompletionLanguageModel blockingSettings) userPrompt
        (HttpOk responseWithUsage))
     = Inr (Some ''blocking'') \<and>
   map_sum id (\<lambda>res. response_mode (str1_request res))
     (doStream_v1 (DifyCompletionLanguageModel blockingSettings) userPrompt (HttpOk []))
     = Inr (Some ''streaming'') \<and>
   map_sum id (\<lambda>g. response_mode (gen1_request g))
     (doGenerate_v1 (DifyCompletionLanguageModel blockingSettings) userPrompt
        (HttpOk responseWithUsage))
     = Inr (Some ''blocking'')"
proof -
  obtain res where r2:
    "doStream_v2 ''msg-1'' (DifyCompletionLanguageModel blockingSettings) userPrompt (HttpOk []) = Inr res"
    by (simp add: doStream_v2_def userPrompt_body_v2 postJsonToApi_def case_prod_beta)
  obtain res1 where r1:
    "doStream_v1 (DifyCompletionLanguageModel blockingSettings) userPrompt (HttpOk []) = Inr res1"
    by (simp add: doStream_v1_def userPrompt_body_v1 postJsonToApi_def case_prod_beta)
  obtain g where g2:
    "doGenerate_v2 (DifyCompletionLanguageModel blockingSettings) userPrompt
       (HttpOk responseWithUsage) = Inr g"
    by (simp add: doGenerate_v2_def userPrompt_body_v2 postJsonToApi_def responseWithUsage_def
        case_prod_beta)
  obtain g1 where g1:
    "doGenerate_v1 (DifyCompletionLanguageModel blockingSettings) userPrompt
       (HttpOk responseWithUsage) = Inr g1"
    by (simp add: doGenerate_v1_def userPrompt_body_v1 postJsonToApi_def case_prod_beta)
  have b: "responseMode blockingSettings = Some ''blocking''"
    by (simp add: blockingSettings_def)
  show ?thesis
    using doStream_forces_streaming_mode
        [of "''msg-1''" "DifyCompletionLanguageModel blockingSettings" userPrompt "HttpOk []" res
          res1 blockingSettings "HttpOk responseWithUsage" g g1]
      r2 r1 g2 g1 b
    by simp
qed

section \<open>Usage of the chat model's terminal event\<close>

text \<open>
  Claim C3: for every \<open>message_end\<close> event that carries a numeric \<open>data.total_tokens\<close> and a
  \<open>metadata.usage\<close> object, the \<open>outputTokens\<close> of the finish part is \<open>data.total_tokens\<close>,
  whatever the usage object holds.
\<close>

theorem message_end_prefers_data_total_tokens:
  assumes "map_of data ''event'' = Some (JStr ''message_end'')"
    and "map_of data ''data'' = Some (JObj d)"
    and "map_of d ''total_tokens'' = Some (JNum n)"
    and "metadataUsage data = Some u"
  shows "chatMessageEndOutputTokens data = n"
  using assms by (simp add: chatMessageEndOutputTokens_def dataTotalTokens_def)

text \<open>
  Claim C3, witness: the fixture with \<open>data.total_tokens = 50\<close> and
  \<open>metadata.usage.total_tokens = 35\<close> yields 50, the value the test expects.
\<close>

theorem message_end_prefers_data_total_tokens_witness:
  "metadataUsage fixture_message_end_data =
     Some \<lparr>completion_tokens = 25, prompt_tokens = 10, total_tokens = 35\<rparr> \<and>
   chatMessageEndOutputTokens fixture_message_end_data = 50 \<and>
   chatMessageEndOutputTokens fixture_message_end_data = expected_outputTokens_with_data"
  using message_end_prefers_data_total_tokens
      [of fixture_message_end_data "[(''total_tokens'', JNum 50)]" 50
        "\<lparr>completion_tokens = 25, prompt_tokens = 10, total_tokens = 35\<rparr>"]
  by (simp add: fixture_message_end_data_def metadataUsage_def expected_outputTokens_with_data_def)

end
